theory Spec2Isabelle
  imports Complex_Main "HOL-Library.Log_Nat" "HOL-Library.Word"
begin

section \<open>Python floats\<close>

text \<open>
  The scanner's thresholds and the confidence score are Python floats, that is IEEE 754
  binary64 numbers. A finite float is modelled by the rational number it denotes; every
  literal and every arithmetic operation rounds the exact result to the nearest
  binary64 value, ties to the even significand. The magnitudes that occur in the scanner
  lie between 0 and 2, far from overflow; infinities and NaN are not modelled.
\<close>

definition round_half_even :: "rat \<Rightarrow> int" where
  "round_half_even x =
     (let f = \<lfloor>x\<rfloor>; r = x - of_int f
      in if r < 1 / 2 then f else if 1 / 2 < r then f + 1 else if even f then f else f + 1)"

definition pow2 :: "int \<Rightarrow> rat" where
  "pow2 k = (if 0 \<le> k then 2 ^ nat k else 1 / 2 ^ nat (- k))"

text \<open>For \<open>0 < x\<close>, \<open>exponent x\<close> is the \<open>e\<close> with \<open>2^e \<le> x < 2^(e+1)\<close>.\<close>

definition exponent :: "rat \<Rightarrow> int" where
  "exponent x = (if 1 \<le> x then bitlen \<lfloor>x\<rfloor> - 1 else - bitlen (\<lceil>1 / x\<rceil> - 1))"

text \<open>
  \<open>dbl x\<close> is the binary64 number nearest to \<open>x\<close>: a significand of 53 bits, the unit
  in the last place \<open>2^(e - 52)\<close>, and the subnormal spacing \<open>2^(-1074)\<close> below the
  smallest normal exponent. A decimal literal \<open>0.6\<close> of the source is \<open>dbl (6 / 10)\<close>.
\<close>

definition dbl :: "rat \<Rightarrow> rat" where
  "dbl x =
     (if x = 0 then 0
      else let a = \<bar>x\<bar>;
               q = max (exponent a) (- 1022) - 52;
               m = round_half_even (a / pow2 q)
           in sgn x * of_int m * pow2 q)"

definition fadd :: "rat \<Rightarrow> rat \<Rightarrow> rat" where
  "fadd x y = dbl (x + y)"

definition fmul :: "rat \<Rightarrow> rat \<Rightarrow> rat" where
  "fmul x y = dbl (x * y)"

text \<open>An \<open>int\<close> operand of a float operation is converted to a float first.\<close>

definition float_of_int :: "int \<Rightarrow> rat" where
  "float_of_int k = dbl (of_int k)"

text \<open>
  \<open>round(x, ndigits)\<close> on a float: the exact value of \<open>x\<close> is rounded to \<open>ndigits\<close>
  decimal places, ties to even, and the decimal result is converted back to the nearest
  float.
\<close>

definition py_round :: "rat \<Rightarrow> nat \<Rightarrow> rat" where
  "py_round x ndigits = dbl (of_int (round_half_even (x * 10 ^ ndigits)) / 10 ^ ndigits)"

text \<open>\<open>max(a, b)\<close> and \<open>min(a, b)\<close> return the first argument unless the second beats it.\<close>

definition py_max :: "rat \<Rightarrow> rat \<Rightarrow> rat" where
  "py_max a b = (if a < b then b else a)"

definition py_min :: "rat \<Rightarrow> rat \<Rightarrow> rat" where
  "py_min a b = (if b < a then b else a)"


section \<open>Data model\<close>

text \<open>
  The metrics dictionary and the flags dictionary are built by dictionary displays with
  five fixed keys each; they are records with one field per key, in the order of the
  source.
\<close>

record MetricSet =
  brightness :: rat
  dark_fraction :: rat
  warm_fraction :: rat
  shiny_fraction :: rat
  neutral_fraction :: rat

record FlagSet =
  food_residue :: bool
  black_plastic :: bool
  soft_plastic :: bool
  paper_lining :: bool
  clean_material :: bool

text \<open>\<open>flags.values()\<close>, in insertion order.\<close>

definition flag_values :: "FlagSet \<Rightarrow> bool list" where
  "flag_values flags =
     [food_residue flags, black_plastic flags, soft_plastic flags, paper_lining flags,
      clean_material flags]"

datatype error = AxisError | IndexError | KeyError

text \<open>
  The image handed to the analysis, as the array \<open>np.asarray(resized)\<close> sees it after
  \<open>image.resize((224, 224))\<close>: a single-band image is a two-dimensional array of
  samples, a multi-band image a three-dimensional one, here the list of its pixels, each
  pixel the list of its 8-bit channel values. The resampling itself is the imaging
  library's and is not part of the model; an image that already is 224 by 224 is
  returned unchanged by it.
\<close>

datatype image = Plane "8 word list" | Bands "8 word list list"

text \<open>The dictionary returned by \<open>analyze_waste_item\<close>.\<close>

record ClassificationResult =
  verdict :: string
  action :: string
  explanation :: string
  impact :: string
  features :: FlagSet
  metrics :: MetricSet
  confidence :: rat


section \<open>Text constants\<close>

text \<open>
  Strings are byte strings in UTF-8, the encoding of the source file. The five
  characters outside ASCII are named.
\<close>

definition rsquo :: string where
  "rsquo = [CHR 0xE2, CHR 0x80, CHR 0x99]"

definition mdash :: string where
  "mdash = [CHR 0xE2, CHR 0x80, CHR 0x94]"

definition icon_recycling :: string where
  "icon_recycling = [CHR 0xE2, CHR 0x99, CHR 0xBB]"

definition icon_do_not_litter :: string where
  "icon_do_not_litter = [CHR 0xF0, CHR 0x9F, CHR 0x9A, CHR 0xAF]"

definition icon_warning :: string where
  "icon_warning = [CHR 0xE2, CHR 0x9A, CHR 0xA0]"

definition IMPACT_STATEMENTS :: "(string \<times> string list) list" where
  "IMPACT_STATEMENTS =
     [(''recycle'',
        [''You kept a clean stream that protects ~20 other recyclables.'',
         ''Nice! That'' @ rsquo @ ''s enough material to offset a day of curbside pickups.'',
         ''Clean recyclables like this can be turned into new packaging within weeks.'']),
      (''rinse'',
        [''A 30-second rinse protects trucks from contamination residues.'',
         ''Rinsing keeps this out of landfill and saves energy in sorting centers.'',
         ''Quick cleaning like this can salvage an entire batch of plastics.'']),
      (''reject'',
        [''Spotting non-recyclables early prevents machinery jams downstream.'',
         ''Diverting this now keeps recycling loads from being rejected.'',
         ''Good catch'' @ mdash @ ''disposing properly avoids contaminating ~10 kg of recyclables.''])]"


section \<open>Metric extraction and flag derivation\<close>

definition fallback_metrics :: MetricSet where
  "fallback_metrics =
     \<lparr>brightness = dbl (55 / 100), dark_fraction = dbl (2 / 10), warm_fraction = dbl (2 / 10),
      shiny_fraction = dbl (2 / 10), neutral_fraction = dbl (2 / 10)\<rparr>"

text \<open>
  The array statistics of \<open>inspect_image\<close> run in the array library's single-precision
  arithmetic. They are modelled in exact rational arithmetic: a channel value is
  \<open>v / 255\<close>, a mean is the exact quotient, and the comparison of a standard deviation
  with \<open>0.05\<close> is the comparison of the variance with \<open>0.05\<^sup>2\<close>. On a buffer whose
  samples are all 0 every intermediate value is 0 or 1 and the two arithmetics agree.
  The buffer holds 224 times 224 pixels, so no mean divides by zero.
\<close>

definition scaled :: "8 word \<Rightarrow> rat" where
  "scaled w = of_nat (unat w) / 255"

definition mean :: "rat list \<Rightarrow> rat" where
  "mean xs = sum_list xs / of_nat (length xs)"

text \<open>The mean of a boolean mask: the fraction of its true entries.\<close>

definition mask_mean :: "('a \<Rightarrow> bool) \<Rightarrow> 'a list \<Rightarrow> rat" where
  "mask_mean P xs = of_nat (length (filter P xs)) / of_nat (length xs)"

fun maximum :: "rat list \<Rightarrow> rat" where
  "maximum [x] = x"
| "maximum (x # xs) = max x (maximum xs)"

fun minimum :: "rat list \<Rightarrow> rat" where
  "minimum [x] = x"
| "minimum (x # xs) = min x (minimum xs)"

definition variance :: "rat list \<Rightarrow> rat" where
  "variance xs = mean (map (\<lambda>x. (x - mean xs)\<^sup>2) xs)"

text \<open>
  The \<open>else\<close> branch of \<open>inspect_image\<close> up to the metrics dictionary. The slices
  \<open>arr[:, :, 1]\<close> and \<open>arr[:, :, 2]\<close> raise \<open>IndexError\<close> on an array with fewer than
  three channels; nothing else in the branch can fail on a three-dimensional array.
\<close>

definition extract_metrics :: "8 word list list \<Rightarrow> error + MetricSet" where
  "extract_metrics resized =
     (let arr = map (map scaled) resized
      in if \<not> list_all (\<lambda>p. 3 \<le> length p) arr then Inl IndexError
         else Inr
           \<lparr>brightness = mean (concat arr),
            dark_fraction = mask_mean (\<lambda>p. mean p < 25 / 100) arr,
            warm_fraction =
              mask_mean (\<lambda>p. p ! 0 - p ! 1 > 8 / 100 \<and> p ! 0 - p ! 2 > 8 / 100) arr,
            shiny_fraction = mask_mean (\<lambda>p. maximum p > 9 / 10 \<and> minimum p < 2 / 10) arr,
            neutral_fraction = mask_mean (\<lambda>p. variance p < (5 / 100)\<^sup>2) arr\<rparr>)"

text \<open>The dictionary display that builds \<open>flags\<close>.\<close>

definition derive_flags :: "MetricSet \<Rightarrow> FlagSet" where
  "derive_flags m =
     \<lparr>food_residue = (warm_fraction m > dbl (32 / 100) \<and> brightness m < dbl (7 / 10)),
      black_plastic = (dark_fraction m > dbl (5 / 10) \<and> brightness m < dbl (4 / 10)),
      soft_plastic = (shiny_fraction m > dbl (45 / 100) \<and> brightness m > dbl (35 / 100)),
      paper_lining = (brightness m > dbl (65 / 100) \<and> shiny_fraction m > dbl (25 / 100)),
      clean_material = (neutral_fraction m > dbl (45 / 100))\<rparr>"

text \<open>The conditional assignment \<open>flags["clean_material"] = False\<close>.\<close>

definition override_clean :: "FlagSet \<Rightarrow> FlagSet" where
  "override_clean flags =
     (if food_residue flags \<or> black_plastic flags \<or> soft_plastic flags
      then flags\<lparr>clean_material := False\<rparr> else flags)"

text \<open>
  \<open>inspect_image\<close>; the first argument says whether the import of the array library
  succeeded (\<open>np is not None\<close>). On a two-dimensional array \<open>arr.mean(axis=2)\<close> raises
  \<open>AxisError\<close>.
\<close>

definition inspect_image :: "bool \<Rightarrow> image \<Rightarrow> error + (MetricSet \<times> FlagSet)" where
  "inspect_image np_available img =
     (case (if \<not> np_available then Inr fallback_metrics
            else case img of Plane _ \<Rightarrow> Inl AxisError | Bands resized \<Rightarrow> extract_metrics resized) of
        Inl e \<Rightarrow> Inl e
      | Inr m \<Rightarrow> Inr (m, override_clean (derive_flags m)))"


section \<open>Classification and confidence\<close>

definition classify_item :: "FlagSet \<Rightarrow> string \<times> string \<times> string \<times> string" where
  "classify_item flags =
     (if black_plastic flags then
        (icon_do_not_litter @ '' Not Recyclable'',
         ''Place this in general waste'' @ mdash @ ''black plastic is rarely detected by optical sorters.'',
         ''Deep black pigments absorb the sorting lasers, so recycling centers cannot identify it.'',
         ''reject'')
      else if soft_plastic flags then
        (icon_do_not_litter @ '' Not Recyclable'',
         ''Drop soft plastic films at a store take-back bin or dispose with trash if none exist.'',
         ''Thin, reflective plastic film tangles in machinery at curbside facilities.'',
         ''reject'')
      else if food_residue flags then
        (icon_warning @ '' Rinse & Recycle'',
         ''Rinse off the food residue, scrape any grease, and let it dry before recycling.'',
         ''Organic residue can contaminate paper and cardboard in the recycling stream.'',
         ''rinse'')
      else if paper_lining flags then
        (icon_warning @ '' Rinse & Recycle'',
         ''Peel out the plastic lining or lid where possible, then recycle the clean paper portion.'',
         ''Paper cups and cartons often have thin plastic liners that need separating to be recycled.'',
         ''rinse'')
      else if clean_material flags then
        (icon_recycling @ '' Recyclable'',
         ''Place it in your mixed recycling bin'' @ mdash @ ''clean single-material items are accepted curbside.'',
         ''No contamination detected; facilities can easily process glass, metal, or cardboard like this.'',
         ''recycle'')
      else
        (icon_warning @ '' Rinse & Recycle'',
         ''Give it a quick check'' @ mdash @ ''if it'' @ rsquo @ ''s rigid and mostly clean, recycle; otherwise rinse first.'',
         ''The scanner saw mixed cues, so a quick clean ensures it won'' @ rsquo @ ''t be rejected for contamination.'',
         ''rinse''))"

definition estimate_confidence :: "FlagSet \<Rightarrow> rat \<Rightarrow> rat" where
  "estimate_confidence flags b =
     (let true_flags = int (length (filter (\<lambda>v. v) (flag_values flags)));
          base = fadd (dbl (6 / 10)) (fmul (dbl (8 / 100)) (float_of_int (max (true_flags - 1) 0)));
          base = (if clean_material flags \<or> black_plastic flags then fadd base (dbl (1 / 10)) else base);
          base = (if dbl (35 / 100) < b \<and> b < dbl (8 / 10) then fadd base (dbl (5 / 100)) else base)
      in py_max (dbl (45 / 100)) (py_min (dbl (95 / 100)) (py_round base 2)))"


section \<open>The analysis of one item\<close>

text \<open>
  \<open>random.choice(seq)\<close> returns \<open>seq[i]\<close> for an index \<open>i\<close> below \<open>len(seq)\<close> that
  the random source draws, and raises \<open>IndexError\<close> on an empty sequence. The draw is
  the argument \<open>r\<close>, reduced below the length.
\<close>

definition random_choice :: "nat \<Rightarrow> 'a list \<Rightarrow> error + 'a" where
  "random_choice r seq = (if seq = [] then Inl IndexError else Inr (seq ! (r mod length seq)))"

definition analyze_waste_item :: "bool \<Rightarrow> image \<Rightarrow> nat \<Rightarrow> error + ClassificationResult" where
  "analyze_waste_item np_available img r =
     (case inspect_image np_available img of
        Inl e \<Rightarrow> Inl e
      | Inr (m, flags) \<Rightarrow>
          (case classify_item flags of
             (v, a, ex, bucket) \<Rightarrow>
               (let c = estimate_confidence flags (brightness m)
                in case map_of IMPACT_STATEMENTS bucket of
                     None \<Rightarrow> Inl KeyError
                   | Some msgs \<Rightarrow>
                       (case random_choice r msgs of
                          Inl e \<Rightarrow> Inl e
                        | Inr msg \<Rightarrow>
                            Inr \<lparr>verdict = v, action = a, explanation = ex, impact = msg,
                                 features = flags, metrics = m, confidence = c\<rparr>))))"


section \<open>Definitions for the statements\<close>

definition category_of :: "string \<times> string \<times> string \<times> string \<Rightarrow> string" where
  "category_of t = (case t of (v, a, ex, bucket) \<Rightarrow> bucket)"

definition verdict_of :: "string \<times> string \<times> string \<times> string \<Rightarrow> string" where
  "verdict_of t = (case t of (v, a, ex, bucket) \<Rightarrow> v)"

definition action_of :: "string \<times> string \<times> string \<times> string \<Rightarrow> string" where
  "action_of t = (case t of (v, a, ex, bucket) \<Rightarrow> a)"

definition explanation_of :: "string \<times> string \<times> string \<times> string \<Rightarrow> string" where
  "explanation_of t = (case t of (v, a, ex, bucket) \<Rightarrow> ex)"

text \<open>
  The decision list as the specification describes it: an ordered list of pairs of a
  predicate and a category, the last predicate the catch-all. Rule \<open>i\<close> fires on a
  FlagSet when its predicate holds and no earlier predicate does.
\<close>

definition rule_table :: "((FlagSet \<Rightarrow> bool) \<times> string) list" where
  "rule_table =
     [(black_plastic, ''reject''), (soft_plastic, ''reject''), (food_residue, ''rinse''),
      (paper_lining, ''rinse''), (clean_material, ''recycle''), (\<lambda>flags. True, ''rinse'')]"

definition fires :: "nat \<Rightarrow> FlagSet \<Rightarrow> bool" where
  "fires i flags =
     (i < length rule_table \<and> fst (rule_table ! i) flags
      \<and> \<not> list_ex (\<lambda>rule. fst rule flags) (take i rule_table))"

definition all_flagsets :: "FlagSet list" where
  "all_flagsets =
     [\<lparr>food_residue = a, black_plastic = b, soft_plastic = c, paper_lining = d, clean_material = e\<rparr>.
        a \<leftarrow> [False, True], b \<leftarrow> [False, True], c \<leftarrow> [False, True], d \<leftarrow> [False, True],
        e \<leftarrow> [False, True]]"

text \<open>
  The confidence as the specification words it, computed on the decimal numbers
  themselves: the sum of the base and the two bonuses, clamped and rounded to two
  decimal places. The brightness is a float and is compared with the float literals.
\<close>

definition decimal_confidence :: "FlagSet \<Rightarrow> rat \<Rightarrow> rat" where
  "decimal_confidence flags b =
     (let trueFlagCount = int (length (filter (\<lambda>v. v) (flag_values flags)));
          s = 6 / 10 + 8 / 100 * of_int (max (trueFlagCount - 1) 0)
              + (if clean_material flags \<or> black_plastic flags then 1 / 10 else 0)
              + (if dbl (35 / 100) < b \<and> b < dbl (8 / 10) then 5 / 100 else 0);
          clamped = max (45 / 100) (min (95 / 100) s)
      in of_int (round_half_even (clamped * 100)) / 100)"

text \<open>
  The float computation of \<open>estimate_confidence\<close> and the decimal computation above, as
  functions of the three things they depend on: the number of true flags, whether a
  decisive flag is set, and whether the brightness earns the exposure bonus.
\<close>

definition confidence_of :: "int \<Rightarrow> bool \<Rightarrow> bool \<Rightarrow> rat" where
  "confidence_of n decisive exposed =
     (let base = fadd (dbl (6 / 10)) (fmul (dbl (8 / 100)) (float_of_int (max (n - 1) 0)));
          base = (if decisive then fadd base (dbl (1 / 10)) else base);
          base = (if exposed then fadd base (dbl (5 / 100)) else base)
      in py_max (dbl (45 / 100)) (py_min (dbl (95 / 100)) (py_round base 2)))"

definition decimal_of :: "int \<Rightarrow> bool \<Rightarrow> bool \<Rightarrow> rat" where
  "decimal_of n decisive exposed =
     (let s = 6 / 10 + 8 / 100 * of_int (max (n - 1) 0)
              + (if decisive then 1 / 10 else 0) + (if exposed then 5 / 100 else 0);
          clamped = max (45 / 100) (min (95 / 100) s)
      in of_int (round_half_even (clamped * 100)) / 100)"

text \<open>The clamped decimal sum, before it is rounded to two places.\<close>

definition decimal_sum :: "int \<Rightarrow> bool \<Rightarrow> bool \<Rightarrow> rat" where
  "decimal_sum n decisive exposed =
     max (45 / 100) (min (95 / 100)
       (6 / 10 + 8 / 100 * of_int (max (n - 1) 0)
        + (if decisive then 1 / 10 else 0) + (if exposed then 5 / 100 else 0)))"

text \<open>
  What the proofs establish of a decimal confidence \<open>x\<close> and of the float nearest to
  it: the bounds against the float literals, as the program compares, and against the
  decimal numbers themselves.
\<close>

definition decimal_bounds :: "rat \<Rightarrow> bool" where
  "decimal_bounds x =
     (6 / 10 \<le> x \<and> x \<le> 95 / 100
      \<and> dbl (6 / 10) \<le> dbl x \<and> dbl x \<le> dbl (95 / 100) \<and> dbl (45 / 100) < dbl x
      \<and> 45 / 100 \<le> dbl x \<and> dbl x \<le> 95 / 100)"

text \<open>The buffers of the scenarios: 224 by 224 pixels, all samples 0.\<close>

definition all_black :: image where
  "all_black = Bands (replicate (224 * 224) [0, 0, 0])"

definition all_clear_rgba :: image where
  "all_clear_rgba = Bands (replicate (224 * 224) [0, 0, 0, 0])"

definition no_flags :: FlagSet where
  "no_flags =
     \<lparr>food_residue = False, black_plastic = False, soft_plastic = False, paper_lining = False,
      clean_material = False\<rparr>"

definition only_black_plastic :: FlagSet where
  "only_black_plastic =
     \<lparr>food_residue = False, black_plastic = True, soft_plastic = False, paper_lining = False,
      clean_material = False\<rparr>"

section \<open>The decision list\<close>

lemma all_flagsets_complete: "flags \<in> set all_flagsets"
proof (cases flags)
  case (fields a b c d e)
  show ?thesis unfolding fields all_flagsets_def
    by (cases a; cases b; cases c; cases d; cases e) simp_all
qed

lemma all_flagsets_count: "length all_flagsets = 32 \<and> distinct all_flagsets"
  by (simp add: all_flagsets_def)

lemma fires_simps:
  "fires 0 flags \<longleftrightarrow> black_plastic flags"
  "fires (Suc 0) flags \<longleftrightarrow> \<not> black_plastic flags \<and> soft_plastic flags"
  "fires 2 flags \<longleftrightarrow> \<not> black_plastic flags \<and> \<not> soft_plastic flags \<and> food_residue flags"
  "fires 3 flags \<longleftrightarrow>
     \<not> black_plastic flags \<and> \<not> soft_plastic flags \<and> \<not> food_residue flags \<and> paper_lining flags"
  "fires 4 flags \<longleftrightarrow>
     \<not> black_plastic flags \<and> \<not> soft_plastic flags \<and> \<not> food_residue flags
     \<and> \<not> paper_lining flags \<and> clean_material flags"
  "fires 5 flags \<longleftrightarrow>
     \<not> black_plastic flags \<and> \<not> soft_plastic flags \<and> \<not> food_residue flags
     \<and> \<not> paper_lining flags \<and> \<not> clean_material flags"
  by (auto simp add: fires_def rule_table_def)

lemma fires_index:
  "fires i flags \<Longrightarrow> i = 0 \<or> i = Suc 0 \<or> i = 2 \<or> i = 3 \<or> i = 4 \<or> i = 5"
proof -
  assume "fires i flags"
  then have "i < 6" by (simp add: fires_def rule_table_def)
  then show ?thesis by arith
qed

lemma fires_some:
  "fires 0 flags \<or> fires (Suc 0) flags \<or> fires 2 flags \<or> fires 3 flags \<or> fires 4 flags
   \<or> fires 5 flags"
  unfolding fires_simps by blast

lemma fires_same: "fires i flags \<Longrightarrow> fires j flags \<Longrightarrow> i = j"
proof -
  assume i: "fires i flags" and j: "fires j flags"
  from fires_index [OF i] fires_index [OF j] i j show ?thesis
    by (elim disjE; simp add: fires_simps)
qed

lemma fires_unique: "\<exists>!i. fires i flags"
proof -
  obtain i where "fires i flags" using fires_some [of flags] by blast
  then show ?thesis using fires_same by blast
qed

lemma fires_category:
  "fires i flags \<Longrightarrow> category_of (classify_item flags) = snd (rule_table ! i)"
proof -
  assume i: "fires i flags"
  from fires_index [OF i] i show ?thesis
    by (elim disjE; simp add: fires_simps classify_item_def category_of_def rule_table_def)
qed

text \<open>
  Claim C1. For every FlagSet, \<open>classify_item\<close> returns the category of the first rule
  that matches in the order black plastic, soft plastic, food residue, paper lining,
  clean material, catch-all: \<open>reject\<close>, \<open>reject\<close>, \<open>rinse\<close>, \<open>rinse\<close>, \<open>recycle\<close>,
  \<open>rinse\<close>. The table is total: on every FlagSet exactly one rule fires, the category
  returned is that rule's, and the FlagSets are the 32 combinations of five booleans.
\<close>

theorem classify_item_decision_list:
  "category_of (classify_item flags) =
     (if black_plastic flags then ''reject''
      else if soft_plastic flags then ''reject''
      else if food_residue flags then ''rinse''
      else if paper_lining flags then ''rinse''
      else if clean_material flags then ''recycle''
      else ''rinse'')
   \<and> (\<exists>!i. fires i flags)
   \<and> (\<exists>i. fires i flags \<and> category_of (classify_item flags) = snd (rule_table ! i))
   \<and> flags \<in> set all_flagsets \<and> length all_flagsets = 32 \<and> distinct all_flagsets"
proof -
  have chain: "category_of (classify_item flags) =
     (if black_plastic flags then ''reject''
      else if soft_plastic flags then ''reject''
      else if food_residue flags then ''rinse''
      else if paper_lining flags then ''rinse''
      else if clean_material flags then ''recycle''
      else ''rinse'')"
    by (simp add: classify_item_def category_of_def)
  obtain i where i: "fires i flags"
    using fires_unique [of flags] by blast
  have rule: "\<exists>i. fires i flags \<and> category_of (classify_item flags) = snd (rule_table ! i)"
    using i fires_category [OF i] by blast
  show ?thesis
    by (intro conjI chain fires_unique rule all_flagsets_complete
        conjunct1 [OF all_flagsets_count] conjunct2 [OF all_flagsets_count])
qed
section \<open>Evaluating floats\<close>

lemma bitlen_numeral_simps:
  "bitlen 1 = 1"
  "bitlen (numeral Num.One) = 1"
  "bitlen (numeral (Num.Bit0 n)) = bitlen (numeral n) + 1"
  "bitlen (numeral (Num.Bit1 n)) = bitlen (numeral n) + 1"
proof -
  show "bitlen 1 = 1" by (subst compute_bitlen) simp
  then show "bitlen (numeral Num.One) = 1" by simp
  have "(numeral (Num.Bit0 n) :: int) div 2 = numeral n" by simp
  then show "bitlen (numeral (Num.Bit0 n)) = bitlen (numeral n) + 1"
    by (subst compute_bitlen) simp
  have "(numeral (Num.Bit1 n) :: int) div 2 = numeral n" by simp
  then show "bitlen (numeral (Num.Bit1 n)) = bitlen (numeral n) + 1"
    by (subst compute_bitlen) simp
qed

lemma floor_rat_numeral: "\<lfloor>numeral a / numeral b :: rat\<rfloor> = numeral a div numeral b"
  by (metis floor_divide_of_int_eq of_int_numeral)

lemma ceiling_rat_numeral: "\<lceil>numeral a / numeral b :: rat\<rceil> = - (- numeral a div numeral b)"
  by (metis ceiling_def floor_divide_of_int_eq of_int_numeral of_int_minus minus_divide_left)

lemmas float_eval = dbl_def exponent_def pow2_def round_half_even_def Let_def fadd_def fmul_def
  float_of_int_def py_round_def py_max_def py_min_def
  bitlen_numeral_simps floor_rat_numeral ceiling_rat_numeral

subsection \<open>The rounding is to the nearest float\<close>

lemma round_half_even_error: "\<bar>of_int (round_half_even y) - y\<bar> \<le> 1 / 2"
proof -
  have "of_int \<lfloor>y\<rfloor> \<le> y" "y < of_int \<lfloor>y\<rfloor> + 1" by linarith+
  then show ?thesis
    unfolding round_half_even_def Let_def by (auto simp add: abs_le_iff)
qed

lemma exponent_bounds:
  assumes "0 < x"
  shows "pow2 (exponent x) \<le> x \<and> x < pow2 (exponent x + 1)"
proof (cases "1 \<le> x")
  case True
  define n where "n = \<lfloor>x\<rfloor>"
  have n: "0 < n" using True by (simp add: n_def)
  have b: "2 ^ nat (bitlen n - 1) \<le> n" "n < 2 ^ nat (bitlen n)"
    using bitlen_bounds [OF n] by simp_all
  have k: "1 \<le> bitlen n" using n by (simp add: bitlen_alt_def)
  have "(2::rat) ^ nat (bitlen n - 1) = of_int (2 ^ nat (bitlen n - 1))" by simp
  also have "\<dots> \<le> of_int n" using b(1) by (simp only: of_int_le_iff)
  also have "\<dots> \<le> x" by (simp add: n_def)
  finally have lo: "(2::rat) ^ nat (bitlen n - 1) \<le> x" .
  have "n + 1 \<le> 2 ^ nat (bitlen n)" using b(2) by simp
  then have "(of_int (n + 1) :: rat) \<le> of_int (2 ^ nat (bitlen n))"
    by (simp only: of_int_le_iff)
  moreover have "x < of_int (n + 1)" unfolding n_def by linarith
  ultimately have hi: "x < 2 ^ nat (bitlen n)" by simp
  show ?thesis
    using True lo hi k by (simp add: exponent_def pow2_def n_def [symmetric])
next
  case False
  define c where "c = \<lceil>1 / x\<rceil>"
  define k where "k = bitlen (c - 1)"
  have y: "1 < 1 / x" using False assms by simp
  have c2: "2 \<le> c" unfolding c_def using y by linarith
  then have c1: "0 < c - 1" by simp
  have b: "2 ^ nat (k - 1) \<le> c - 1" "c - 1 < 2 ^ nat k"
    using bitlen_bounds [OF c1] by (simp_all add: k_def)
  have k1: "1 \<le> k" using c1 by (simp add: k_def bitlen_alt_def)
  have "1 / x \<le> of_int c" unfolding c_def by linarith
  also have "(of_int c :: rat) \<le> of_int (2 ^ nat k)"
    using b(2) by (simp only: of_int_le_iff)
  finally have "1 / x \<le> 2 ^ nat k" by simp
  then have lo: "1 / 2 ^ nat k \<le> x"
    using assms by (simp add: field_simps)
  have "(of_int (2 ^ nat (k - 1)) :: rat) \<le> of_int (c - 1)"
    using b(1) by (simp only: of_int_le_iff)
  moreover have "of_int (c - 1) < 1 / x" unfolding c_def by linarith
  ultimately have "2 ^ nat (k - 1) < 1 / x" by simp
  then have hi: "x < 1 / 2 ^ nat (k - 1)"
    using assms by (simp add: field_simps)
  have e: "exponent x = - k" using False by (simp add: exponent_def k_def c_def)
  have n: "nat (- (1 - k)) = nat (k - 1)" by simp
  show ?thesis
  proof (cases "k = 1")
    case True
    then show ?thesis using lo hi by (simp add: e pow2_def)
  next
    case False
    then have "2 \<le> k" using k1 by simp
    then show ?thesis using lo hi n by (simp add: e pow2_def)
  qed
qed

text \<open>
  \<open>dbl x\<close> is an integer multiple of the unit in the last place and lies within half a
  unit of \<open>x\<close>.
\<close>

lemma dbl_nearest:
  assumes "x \<noteq> 0"
  defines "q \<equiv> max (exponent \<bar>x\<bar>) (- 1022) - 52"
  shows "\<exists>m. dbl x = of_int m * pow2 q \<and> \<bar>dbl x - x\<bar> \<le> pow2 q / 2"
proof -
  have p: "0 < pow2 q" by (simp add: pow2_def)
  define m where "m = round_half_even (\<bar>x\<bar> / pow2 q)"
  have d: "dbl x = sgn x * of_int m * pow2 q"
    using assms(1) by (simp add: dbl_def Let_def m_def q_def)
  have "\<bar>of_int m - \<bar>x\<bar> / pow2 q\<bar> \<le> 1 / 2"
    unfolding m_def by (rule round_half_even_error)
  then have "\<bar>of_int m - \<bar>x\<bar> / pow2 q\<bar> * pow2 q \<le> 1 / 2 * pow2 q"
    using p by (simp only: mult_le_cancel_right_pos)
  moreover have "\<bar>of_int m - \<bar>x\<bar> / pow2 q\<bar> * pow2 q = \<bar>of_int m * pow2 q - \<bar>x\<bar>\<bar>"
  proof -
    have "\<bar>of_int m - \<bar>x\<bar> / pow2 q\<bar> * pow2 q = \<bar>(of_int m - \<bar>x\<bar> / pow2 q) * pow2 q\<bar>"
      using p by (simp add: abs_mult)
    also have "(of_int m - \<bar>x\<bar> / pow2 q) * pow2 q = of_int m * pow2 q - \<bar>x\<bar>"
      using p by (simp add: left_diff_distrib)
    finally show ?thesis .
  qed
  ultimately have e: "\<bar>of_int m * pow2 q - \<bar>x\<bar>\<bar> \<le> pow2 q / 2" by simp
  have s: "dbl x = of_int (if 0 < x then m else - m) * pow2 q"
    using assms(1) by (simp add: d sgn_if)
  have "\<bar>dbl x - x\<bar> = \<bar>of_int m * pow2 q - \<bar>x\<bar>\<bar>"
  proof (cases "0 < x")
    case True
    then show ?thesis by (simp add: s)
  next
    case False
    then have "x < 0" using assms(1) by simp
    then have "dbl x - x = - (of_int m * pow2 q - \<bar>x\<bar>)" by (simp add: s)
    then show ?thesis by (simp only: abs_minus_cancel)
  qed
  then have "\<bar>dbl x - x\<bar> \<le> pow2 q / 2" using e by simp
  then show ?thesis using s by blast
qed

text \<open>The floats of the literals of the source, as exact fractions.\<close>

lemma dbl_literals:
  "dbl (6 / 10) = 5404319552844595 / 9007199254740992"
  "dbl (8 / 100) = 5764607523034235 / 72057594037927936"
  "dbl (1 / 10) = 3602879701896397 / 36028797018963968"
  "dbl (5 / 100) = 3602879701896397 / 72057594037927936"
  "dbl (45 / 100) = 8106479329266893 / 18014398509481984"
  "dbl (95 / 100) = 4278419646001971 / 4503599627370496"
  "dbl (35 / 100) = 3152519739159347 / 9007199254740992"
  "dbl (8 / 10) = 3602879701896397 / 4503599627370496"
  "dbl (1 / 2) = 1 / 2"
  "fadd (dbl (6 / 10)) (dbl (8 / 100)) = 3062447746611937 / 4503599627370496"
  "py_round (3062447746611937 / 4503599627370496) 2 = dbl (68 / 100)"
  by (simp_all add: float_eval)

subsection \<open>The confidence on every combination\<close>

text \<open>
  The float computation agrees with the decimal one on every combination of its three
  inputs: the result is the float nearest to the decimal result.
\<close>

lemma confidence_table:
  "confidence_of 0 False False = dbl (decimal_of 0 False False)"
  "confidence_of 0 False True = dbl (decimal_of 0 False True)"
  "confidence_of 0 True False = dbl (decimal_of 0 True False)"
  "confidence_of 0 True True = dbl (decimal_of 0 True True)"
  "confidence_of 1 False False = dbl (decimal_of 1 False False)"
  "confidence_of 1 False True = dbl (decimal_of 1 False True)"
  "confidence_of 1 True False = dbl (decimal_of 1 True False)"
  "confidence_of 1 True True = dbl (decimal_of 1 True True)"
  "confidence_of 2 False False = dbl (decimal_of 2 False False)"
  "confidence_of 2 False True = dbl (decimal_of 2 False True)"
  "confidence_of 2 True False = dbl (decimal_of 2 True False)"
  "confidence_of 2 True True = dbl (decimal_of 2 True True)"
  "confidence_of 3 False False = dbl (decimal_of 3 False False)"
  "confidence_of 3 False True = dbl (decimal_of 3 False True)"
  "confidence_of 3 True False = dbl (decimal_of 3 True False)"
  "confidence_of 3 True True = dbl (decimal_of 3 True True)"
  "confidence_of 4 False False = dbl (decimal_of 4 False False)"
  "confidence_of 4 False True = dbl (decimal_of 4 False True)"
  "confidence_of 4 True False = dbl (decimal_of 4 True False)"
  "confidence_of 4 True True = dbl (decimal_of 4 True True)"
  "confidence_of 5 False False = dbl (decimal_of 5 False False)"
  "confidence_of 5 False True = dbl (decimal_of 5 False True)"
  "confidence_of 5 True False = dbl (decimal_of 5 True False)"
  "confidence_of 5 True True = dbl (decimal_of 5 True True)"
  unfolding confidence_of_def decimal_of_def Let_def if_True if_False
  by (simp_all add: float_eval)

lemma decimal_table:
  "decimal_bounds (decimal_of 0 False False)"
  "decimal_bounds (decimal_of 0 False True)"
  "decimal_bounds (decimal_of 0 True False)"
  "decimal_bounds (decimal_of 0 True True)"
  "decimal_bounds (decimal_of 1 False False)"
  "decimal_bounds (decimal_of 1 False True)"
  "decimal_bounds (decimal_of 1 True False)"
  "decimal_bounds (decimal_of 1 True True)"
  "decimal_bounds (decimal_of 2 False False)"
  "decimal_bounds (decimal_of 2 False True)"
  "decimal_bounds (decimal_of 2 True False)"
  "decimal_bounds (decimal_of 2 True True)"
  "decimal_bounds (decimal_of 3 False False)"
  "decimal_bounds (decimal_of 3 False True)"
  "decimal_bounds (decimal_of 3 True False)"
  "decimal_bounds (decimal_of 3 True True)"
  "decimal_bounds (decimal_of 4 False False)"
  "decimal_bounds (decimal_of 4 False True)"
  "decimal_bounds (decimal_of 4 True False)"
  "decimal_bounds (decimal_of 4 True True)"
  "decimal_bounds (decimal_of 5 False False)"
  "decimal_bounds (decimal_of 5 False True)"
  "decimal_bounds (decimal_of 5 True False)"
  "decimal_bounds (decimal_of 5 True True)"
  unfolding decimal_bounds_def decimal_of_def Let_def if_True if_False
  by (simp_all add: float_eval)

lemma confidence_of_decimal:
  assumes "n \<in> {0, 1, 2, 3, 4, 5}"
  shows "confidence_of n d e = dbl (decimal_of n d e)"
  using assms
  by (cases d rule: bool.exhaust; cases e rule: bool.exhaust; elim insertE emptyE;
      simp only: confidence_table)

lemma decimal_of_bounds:
  assumes "n \<in> {0, 1, 2, 3, 4, 5}"
  shows "decimal_bounds (decimal_of n d e)"
  using assms
  by (cases d rule: bool.exhaust; cases e rule: bool.exhaust; elim insertE emptyE;
      simp only: decimal_table)

lemma true_flags_range:
  "int (length (filter (\<lambda>v. v) (flag_values flags))) \<in> {0, 1, 2, 3, 4, 5}"
  by (simp add: flag_values_def)

lemma estimate_confidence_of:
  "estimate_confidence flags b =
     confidence_of (int (length (filter (\<lambda>v. v) (flag_values flags))))
       (clean_material flags \<or> black_plastic flags) (dbl (35 / 100) < b \<and> b < dbl (8 / 10))"
  unfolding estimate_confidence_def confidence_of_def Let_def by simp

lemma decimal_confidence_of:
  "decimal_confidence flags b =
     decimal_of (int (length (filter (\<lambda>v. v) (flag_values flags))))
       (clean_material flags \<or> black_plastic flags) (dbl (35 / 100) < b \<and> b < dbl (8 / 10))"
  unfolding decimal_confidence_def decimal_of_def Let_def by simp

lemma estimate_confidence_decimal:
  "estimate_confidence flags b = dbl (decimal_confidence flags b)"
  unfolding estimate_confidence_of decimal_confidence_of
  by (rule confidence_of_decimal [OF true_flags_range])

lemma decimal_confidence_bounds: "decimal_bounds (decimal_confidence flags b)"
  unfolding decimal_confidence_of by (rule decimal_of_bounds [OF true_flags_range])
lemma decimal_exact_table:
  "decimal_of 0 False False = decimal_sum 0 False False"
  "decimal_of 0 False True = decimal_sum 0 False True"
  "decimal_of 0 True False = decimal_sum 0 True False"
  "decimal_of 0 True True = decimal_sum 0 True True"
  "decimal_of 1 False False = decimal_sum 1 False False"
  "decimal_of 1 False True = decimal_sum 1 False True"
  "decimal_of 1 True False = decimal_sum 1 True False"
  "decimal_of 1 True True = decimal_sum 1 True True"
  "decimal_of 2 False False = decimal_sum 2 False False"
  "decimal_of 2 False True = decimal_sum 2 False True"
  "decimal_of 2 True False = decimal_sum 2 True False"
  "decimal_of 2 True True = decimal_sum 2 True True"
  "decimal_of 3 False False = decimal_sum 3 False False"
  "decimal_of 3 False True = decimal_sum 3 False True"
  "decimal_of 3 True False = decimal_sum 3 True False"
  "decimal_of 3 True True = decimal_sum 3 True True"
  "decimal_of 4 False False = decimal_sum 4 False False"
  "decimal_of 4 False True = decimal_sum 4 False True"
  "decimal_of 4 True False = decimal_sum 4 True False"
  "decimal_of 4 True True = decimal_sum 4 True True"
  "decimal_of 5 False False = decimal_sum 5 False False"
  "decimal_of 5 False True = decimal_sum 5 False True"
  "decimal_of 5 True False = decimal_sum 5 True False"
  "decimal_of 5 True True = decimal_sum 5 True True"
  unfolding decimal_of_def decimal_sum_def Let_def if_True if_False
  by (simp_all add: round_half_even_def Let_def floor_rat_numeral)

lemma decimal_of_exact:
  assumes "n \<in> {0, 1, 2, 3, 4, 5}"
  shows "decimal_of n d e = decimal_sum n d e"
  using assms
  by (cases d rule: bool.exhaust; cases e rule: bool.exhaust; elim insertE emptyE;
      simp only: decimal_exact_table)

lemma decimal_confidence_exact:
  "decimal_confidence flags b =
     decimal_sum (int (length (filter (\<lambda>v. v) (flag_values flags))))
       (clean_material flags \<or> black_plastic flags) (dbl (35 / 100) < b \<and> b < dbl (8 / 10))"
  unfolding decimal_confidence_of by (rule decimal_of_exact [OF true_flags_range])

lemma confidence_extremes:
  "estimate_confidence no_flags 0 = dbl (6 / 10)"
  "estimate_confidence no_flags 1 = dbl (6 / 10)"
  "estimate_confidence
     \<lparr>food_residue = True, black_plastic = True, soft_plastic = True, paper_lining = True,
      clean_material = True\<rparr> (1 / 2) = dbl (95 / 100)"
proof -
  have lo: "confidence_of 0 False False = dbl (6 / 10)"
    unfolding confidence_of_def Let_def if_True if_False by (simp add: float_eval)
  have hi: "confidence_of 5 True True = dbl (95 / 100)"
    unfolding confidence_of_def Let_def if_True if_False by (simp add: float_eval)
  have "estimate_confidence no_flags 0 = confidence_of 0 False False"
    unfolding estimate_confidence_of no_flags_def flag_values_def by (simp add: float_eval)
  then show "estimate_confidence no_flags 0 = dbl (6 / 10)"
    by (simp only: lo)
  have "estimate_confidence no_flags 1 = confidence_of 0 False False"
    unfolding estimate_confidence_of no_flags_def flag_values_def by (simp add: float_eval)
  then show "estimate_confidence no_flags 1 = dbl (6 / 10)"
    by (simp only: lo)
  have "estimate_confidence
     \<lparr>food_residue = True, black_plastic = True, soft_plastic = True, paper_lining = True,
      clean_material = True\<rparr> (1 / 2) = confidence_of 5 True True"
    unfolding estimate_confidence_of flag_values_def by (simp add: float_eval)
  then show "estimate_confidence
     \<lparr>food_residue = True, black_plastic = True, soft_plastic = True, paper_lining = True,
      clean_material = True\<rparr> (1 / 2) = dbl (95 / 100)"
    by (simp only: hi)
qed

section \<open>Flag thresholds\<close>

text \<open>
  Claim C3. For every MetricSet the flag derivation, before the override of
  \<open>clean_material\<close>, sets each flag by strict comparisons with the float literals:
  \<open>food_residue\<close> iff \<open>warm_fraction > 0.32\<close> and \<open>brightness < 0.7\<close>;
  \<open>black_plastic\<close> iff \<open>dark_fraction > 0.5\<close> and \<open>brightness < 0.4\<close>;
  \<open>soft_plastic\<close> iff \<open>shiny_fraction > 0.45\<close> and \<open>brightness > 0.35\<close>;
  \<open>paper_lining\<close> iff \<open>brightness > 0.65\<close> and \<open>shiny_fraction > 0.25\<close>;
  \<open>clean_material\<close> iff \<open>neutral_fraction > 0.45\<close>. The override leaves the first
  four flags as derived.
\<close>

theorem derive_flags_thresholds:
  "(food_residue (derive_flags m) \<longleftrightarrow>
      warm_fraction m > dbl (32 / 100) \<and> brightness m < dbl (7 / 10))
   \<and> (black_plastic (derive_flags m) \<longleftrightarrow>
      dark_fraction m > dbl (5 / 10) \<and> brightness m < dbl (4 / 10))
   \<and> (soft_plastic (derive_flags m) \<longleftrightarrow>
      shiny_fraction m > dbl (45 / 100) \<and> brightness m > dbl (35 / 100))
   \<and> (paper_lining (derive_flags m) \<longleftrightarrow>
      brightness m > dbl (65 / 100) \<and> shiny_fraction m > dbl (25 / 100))
   \<and> (clean_material (derive_flags m) \<longleftrightarrow> neutral_fraction m > dbl (45 / 100))
   \<and> food_residue (override_clean (derive_flags m)) = food_residue (derive_flags m)
   \<and> black_plastic (override_clean (derive_flags m)) = black_plastic (derive_flags m)
   \<and> soft_plastic (override_clean (derive_flags m)) = soft_plastic (derive_flags m)
   \<and> paper_lining (override_clean (derive_flags m)) = paper_lining (derive_flags m)"
  unfolding derive_flags_def override_clean_def by simp


section \<open>Confidence\<close>

text \<open>
  Claim C4. For every FlagSet and brightness, \<open>estimate_confidence\<close> returns the float
  nearest to the decimal confidence: the clamp to \<open>[0.45, 0.95]\<close> of
  \<open>0.6 + 0.08 \<times> max(trueFlagCount - 1, 0)\<close>, plus \<open>0.1\<close> if \<open>clean_material\<close> or
  \<open>black_plastic\<close> is true, plus \<open>0.05\<close> if \<open>0.35 < brightness < 0.8\<close>, rounded to
  two decimal places; the rounding leaves the clamped sum as it is.
\<close>

theorem estimate_confidence_formula:
  "estimate_confidence flags b = dbl (decimal_confidence flags b)
   \<and> decimal_confidence flags b =
       max (45 / 100) (min (95 / 100)
         (6 / 10 + 8 / 100 * of_int (max (int (length (filter (\<lambda>v. v) (flag_values flags))) - 1) 0)
          + (if clean_material flags \<or> black_plastic flags then 1 / 10 else 0)
          + (if dbl (35 / 100) < b \<and> b < dbl (8 / 10) then 5 / 100 else 0)))"
  using estimate_confidence_decimal [of flags b] decimal_confidence_exact [of flags b]
  unfolding decimal_sum_def by (intro conjI)

text \<open>
  Claim C5. For every FlagSet and every brightness, 0 and 1 and a FlagSet without true
  flags included, the confidence lies within \<open>[0.45, 0.95]\<close>, both as the program
  compares floats and as decimal numbers.
\<close>

theorem estimate_confidence_bounds:
  "dbl (45 / 100) \<le> estimate_confidence flags b \<and> estimate_confidence flags b \<le> dbl (95 / 100)
   \<and> 45 / 100 \<le> estimate_confidence flags b \<and> estimate_confidence flags b \<le> 95 / 100
   \<and> estimate_confidence no_flags 0 = dbl (6 / 10)
   \<and> estimate_confidence no_flags 1 = dbl (6 / 10)"
  using decimal_confidence_bounds [of flags b] confidence_extremes(1,2)
  unfolding decimal_bounds_def estimate_confidence_decimal by (intro conjI) linarith+

text \<open>
  Claim C10. For every FlagSet and every brightness the confidence is at least \<open>0.6\<close>:
  it lies between the floats \<open>0.6\<close> and \<open>0.95\<close>, both attained, the decimal confidence
  is at least \<open>6/10\<close>, and the result is strictly above \<open>0.45\<close>, so the lower clamp
  never is the binding bound.
\<close>

theorem estimate_confidence_at_least:
  "dbl (6 / 10) \<le> estimate_confidence flags b \<and> estimate_confidence flags b \<le> dbl (95 / 100)
   \<and> dbl (45 / 100) < estimate_confidence flags b
   \<and> 6 / 10 \<le> decimal_confidence flags b
   \<and> estimate_confidence no_flags 0 = dbl (6 / 10)
   \<and> estimate_confidence
         \<lparr>food_residue = True, black_plastic = True, soft_plastic = True, paper_lining = True,
          clean_material = True\<rparr> (1 / 2) = dbl (95 / 100)"
  using decimal_confidence_bounds [of flags b] confidence_extremes(1,3)
  unfolding decimal_bounds_def estimate_confidence_decimal by (intro conjI) linarith+

section \<open>Uniform buffers\<close>

lemma map_scaled_replicate:
  "map (map scaled) (replicate n p) = replicate n (map scaled p)"
  by simp

lemma sum_list_concat_replicate:
  "sum_list (concat (replicate n (xs :: rat list))) = of_nat n * sum_list xs"
  by (induction n) (simp_all add: algebra_simps)

lemma length_concat_replicate: "length (concat (replicate n xs)) = n * length xs"
  by (induction n) simp_all

lemma mean_concat_replicate:
  assumes "0 < n"
  shows "mean (concat (replicate n xs)) = mean xs"
  using assms
  by (simp add: mean_def sum_list_concat_replicate length_concat_replicate)

lemma mask_mean_replicate:
  assumes "0 < n"
  shows "mask_mean P (replicate n x) = (if P x then 1 else 0)"
  using assms by (simp add: mask_mean_def)

text \<open>The metrics of a buffer whose pixels all are the same.\<close>

lemma extract_metrics_uniform:
  assumes "0 < n" and "3 \<le> length p"
  shows "extract_metrics (replicate n p) =
     Inr \<lparr>brightness = mean (map scaled p),
          dark_fraction = (if mean (map scaled p) < 25 / 100 then 1 else 0),
          warm_fraction =
            (if map scaled p ! 0 - map scaled p ! 1 > 8 / 100
                \<and> map scaled p ! 0 - map scaled p ! 2 > 8 / 100 then 1 else 0),
          shiny_fraction =
            (if maximum (map scaled p) > 9 / 10 \<and> minimum (map scaled p) < 2 / 10 then 1 else 0),
          neutral_fraction = (if variance (map scaled p) < (5 / 100)\<^sup>2 then 1 else 0)\<rparr>"
  using assms unfolding extract_metrics_def Let_def map_scaled_replicate
  by (simp add: mean_concat_replicate mask_mean_replicate list_all_iff del: map_replicate)

lemma all_black_metrics:
  "extract_metrics (replicate (224 * 224) [0, 0, 0]) =
     Inr \<lparr>brightness = 0, dark_fraction = 1, warm_fraction = 0, shiny_fraction = 0,
          neutral_fraction = 1\<rparr>"
  by (subst extract_metrics_uniform) (simp_all add: scaled_def mean_def variance_def)

lemma all_clear_rgba_metrics:
  "extract_metrics (replicate (224 * 224) [0, 0, 0, 0]) =
     Inr \<lparr>brightness = 0, dark_fraction = 1, warm_fraction = 0, shiny_fraction = 0,
          neutral_fraction = 1\<rparr>"
  by (subst extract_metrics_uniform) (simp_all add: scaled_def mean_def variance_def)

lemma black_flags:
  "derive_flags
     \<lparr>brightness = 0, dark_fraction = 1, warm_fraction = 0, shiny_fraction = 0,
      neutral_fraction = 1\<rparr> = only_black_plastic\<lparr>clean_material := True\<rparr>"
  unfolding derive_flags_def only_black_plastic_def by (simp add: float_eval)

lemma inspect_image_Bands:
  "inspect_image True (Bands px) =
     (case extract_metrics px of
        Inl e \<Rightarrow> Inl e
      | Inr m \<Rightarrow> Inr (m, override_clean (derive_flags m)))"
  by (simp add: inspect_image_def)

lemma all_black_inspect:
  "inspect_image True all_black =
     Inr (\<lparr>brightness = 0, dark_fraction = 1, warm_fraction = 0, shiny_fraction = 0,
           neutral_fraction = 1\<rparr>, only_black_plastic)"
  unfolding all_black_def inspect_image_Bands all_black_metrics
  by (simp add: black_flags override_clean_def) (simp add: only_black_plastic_def)

lemma all_clear_rgba_inspect:
  "inspect_image True all_clear_rgba =
     Inr (\<lparr>brightness = 0, dark_fraction = 1, warm_fraction = 0, shiny_fraction = 0,
           neutral_fraction = 1\<rparr>, only_black_plastic)"
  unfolding all_clear_rgba_def inspect_image_Bands all_clear_rgba_metrics
  by (simp add: black_flags override_clean_def) (simp add: only_black_plastic_def)

lemma fallback_derive_flags: "derive_flags fallback_metrics = no_flags"
  unfolding fallback_metrics_def derive_flags_def no_flags_def
  by (simp add: float_eval)

lemma fallback_flags: "override_clean (derive_flags fallback_metrics) = no_flags"
  unfolding fallback_derive_flags by (simp add: override_clean_def no_flags_def)

lemma fallback_inspect: "inspect_image False img = Inr (fallback_metrics, no_flags)"
  by (simp add: inspect_image_def fallback_flags)

section \<open>The analysis and the impact message\<close>

lemma classify_category:
  "category_of (classify_item flags) \<in> {''recycle'', ''rinse'', ''reject''}"
  by (simp add: classify_item_def category_of_def)

lemma impact_lookup:
  "map_of IMPACT_STATEMENTS ''recycle'' = Some (snd (IMPACT_STATEMENTS ! 0))"
  "map_of IMPACT_STATEMENTS ''rinse'' = Some (snd (IMPACT_STATEMENTS ! 1))"
  "map_of IMPACT_STATEMENTS ''reject'' = Some (snd (IMPACT_STATEMENTS ! 2))"
  by (simp_all add: IMPACT_STATEMENTS_def)

lemma impact_lookup_cases:
  assumes "map_of IMPACT_STATEMENTS c = Some msgs"
  shows "(c = ''recycle'' \<and> msgs = snd (IMPACT_STATEMENTS ! 0))
       \<or> (c = ''rinse'' \<and> msgs = snd (IMPACT_STATEMENTS ! 1))
       \<or> (c = ''reject'' \<and> msgs = snd (IMPACT_STATEMENTS ! 2))"
  using assms by (simp add: IMPACT_STATEMENTS_def split: if_splits)

lemma impact_lengths:
  "length (snd (IMPACT_STATEMENTS ! 0)) = 3"
  "length (snd (IMPACT_STATEMENTS ! 1)) = 3"
  "length (snd (IMPACT_STATEMENTS ! 2)) = 3"
  by (simp_all add: IMPACT_STATEMENTS_def)

lemma impact_disjoint:
  "set (snd (IMPACT_STATEMENTS ! 0)) \<inter> set (snd (IMPACT_STATEMENTS ! 1)) = {}"
  "set (snd (IMPACT_STATEMENTS ! 0)) \<inter> set (snd (IMPACT_STATEMENTS ! 2)) = {}"
  "set (snd (IMPACT_STATEMENTS ! 1)) \<inter> set (snd (IMPACT_STATEMENTS ! 2)) = {}"
  by (simp_all add: IMPACT_STATEMENTS_def rsquo_def mdash_def)

lemma impact_lists_disjoint:
  assumes "map_of IMPACT_STATEMENTS c = Some msgs"
    and "map_of IMPACT_STATEMENTS c' = Some msgs'" and "c' \<noteq> c"
  shows "set msgs \<inter> set msgs' = {}"
  using impact_lookup_cases [OF assms(1)] impact_lookup_cases [OF assms(2)] assms(3) impact_disjoint
  by (elim disjE conjE) (simp_all add: Int_commute)

lemma impact_lookup_length:
  assumes "map_of IMPACT_STATEMENTS c = Some msgs"
  shows "length msgs = 3"
  using impact_lookup_cases [OF assms] impact_lengths by (elim disjE conjE) simp_all

lemma category_lookup:
  "\<exists>msgs. map_of IMPACT_STATEMENTS (category_of (classify_item flags)) = Some msgs"
  using classify_category [of flags] impact_lookup by auto

lemma random_choice_three:
  assumes "length msgs = 3"
  shows "random_choice r msgs = Inr (msgs ! (r mod 3)) \<and> msgs ! (r mod 3) \<in> set msgs"
  using assms by (auto simp add: random_choice_def)

lemma analyze_waste_item_Inr:
  assumes "inspect_image np img = Inr (m, flags)"
  shows "analyze_waste_item np img r =
     Inr \<lparr>verdict = verdict_of (classify_item flags), action = action_of (classify_item flags),
          explanation = explanation_of (classify_item flags),
          impact = the (map_of IMPACT_STATEMENTS (category_of (classify_item flags))) ! (r mod 3),
          features = flags, metrics = m,
          confidence = estimate_confidence flags (brightness m)\<rparr>"
proof -
  obtain v a ex bucket where c: "classify_item flags = (v, a, ex, bucket)"
    by (cases "classify_item flags")
  obtain msgs where l: "map_of IMPACT_STATEMENTS bucket = Some msgs"
    using category_lookup [of flags] by (auto simp add: c category_of_def)
  have "random_choice r msgs = Inr (msgs ! (r mod 3))"
    using random_choice_three [OF impact_lookup_length [OF l]] by simp
  then show ?thesis
    using assms c l
    by (simp add: analyze_waste_item_def verdict_of_def action_of_def explanation_of_def
        category_of_def)
qed

lemma analyze_waste_item_Inl:
  assumes "inspect_image np img = Inl e"
  shows "analyze_waste_item np img r = Inl e"
  using assms by (simp add: analyze_waste_item_def)

section \<open>The override of \<open>clean_material\<close>\<close>

lemma inspect_image_flags:
  assumes "inspect_image np img = Inr (m, flags)"
  shows "flags = override_clean (derive_flags m)"
  using assms by (auto simp add: inspect_image_def split: sum.splits if_splits)

text \<open>
  Claim C2. In the FlagSet that \<open>inspect_image\<close> returns, for every image and with
  or without the array library, \<open>clean_material\<close> is never true together with
  \<open>food_residue\<close>, \<open>black_plastic\<close> or \<open>soft_plastic\<close>: it is the threshold result
  of \<open>neutral_fraction\<close> only when none of the three is set, and false otherwise.
\<close>

theorem clean_material_override:
  assumes "inspect_image np img = Inr (m, flags)"
  shows "\<not> (clean_material flags
            \<and> (food_residue flags \<or> black_plastic flags \<or> soft_plastic flags))
         \<and> (clean_material flags \<longleftrightarrow>
              neutral_fraction m > dbl (45 / 100)
              \<and> \<not> (food_residue flags \<or> black_plastic flags \<or> soft_plastic flags))"
  unfolding inspect_image_flags [OF assms]
  by (simp add: override_clean_def derive_flags_def)

text \<open>
  On the all-black buffer the threshold of \<open>clean_material\<close> is passed
  (\<open>neutral_fraction = 1\<close>), \<open>black_plastic\<close> is set, and the flag returned is false.
\<close>

theorem clean_material_override_witness:
  "inspect_image True all_black =
     Inr (\<lparr>brightness = 0, dark_fraction = 1, warm_fraction = 0, shiny_fraction = 0,
           neutral_fraction = 1\<rparr>, only_black_plastic)
   \<and> clean_material
       (derive_flags
          \<lparr>brightness = 0, dark_fraction = 1, warm_fraction = 0, shiny_fraction = 0,
           neutral_fraction = 1\<rparr>)
   \<and> black_plastic only_black_plastic
   \<and> \<not> (clean_material only_black_plastic
          \<and> (food_residue only_black_plastic \<or> black_plastic only_black_plastic
              \<or> soft_plastic only_black_plastic))"
proof -
  note w = clean_material_override [OF all_black_inspect]
  have a: "clean_material
       (derive_flags
          \<lparr>brightness = 0, dark_fraction = 1, warm_fraction = 0, shiny_fraction = 0,
           neutral_fraction = 1\<rparr>)"
    unfolding black_flags by simp
  have b: "black_plastic only_black_plastic"
    by (simp add: only_black_plastic_def)
  show ?thesis
    by (intro conjI all_black_inspect a b conjunct1 [OF w])
qed

section \<open>The fallback and the all-black scenario\<close>

lemma fallback_confidence: "estimate_confidence no_flags (dbl (55 / 100)) = dbl (65 / 100)"
proof -
  have v: "confidence_of 0 False True = dbl (65 / 100)"
    unfolding confidence_of_def Let_def if_True if_False by (simp add: float_eval)
  have "estimate_confidence no_flags (dbl (55 / 100)) = confidence_of 0 False True"
    unfolding estimate_confidence_of no_flags_def flag_values_def by (simp add: float_eval)
  then show ?thesis by (simp only: v)
qed

lemma black_confidence: "estimate_confidence only_black_plastic 0 = dbl (7 / 10)"
proof -
  have v: "confidence_of 1 True False = dbl (7 / 10)"
    unfolding confidence_of_def Let_def if_True if_False by (simp add: float_eval)
  have "estimate_confidence only_black_plastic 0 = confidence_of 1 True False"
    unfolding estimate_confidence_of only_black_plastic_def flag_values_def
    by (simp add: float_eval)
  then show ?thesis by (simp only: v)
qed

lemma fallback_classify:
  "verdict_of (classify_item no_flags) = icon_warning @ '' Rinse & Recycle''"
  "category_of (classify_item no_flags) = ''rinse''"
  "fires 5 no_flags"
  by (simp_all add: classify_item_def no_flags_def verdict_of_def category_of_def fires_simps)

lemma black_classify:
  "verdict_of (classify_item only_black_plastic) = icon_do_not_litter @ '' Not Recyclable''"
  "category_of (classify_item only_black_plastic) = ''reject''"
  "fires 0 only_black_plastic"
  by (simp_all add: classify_item_def only_black_plastic_def verdict_of_def category_of_def
      fires_simps)

text \<open>
  Claim C6. Without the array library the call does not fail: whatever the image,
  \<open>inspect_image\<close> returns the fixed default MetricSet (brightness \<open>0.55\<close>, the four
  fractions \<open>0.2\<close>) and the FlagSet with all five flags false, the classifier takes its
  last rule, verdict \<open>Rinse & Recycle\<close> after the warning sign, category \<open>rinse\<close>, and
  the analysis returns a result with that verdict, a message of the \<open>rinse\<close> list and
  confidence \<open>0.65\<close>.
\<close>

theorem fallback_analysis:
  "inspect_image False img = Inr (fallback_metrics, no_flags)
   \<and> fallback_metrics =
       \<lparr>brightness = dbl (55 / 100), dark_fraction = dbl (2 / 10), warm_fraction = dbl (2 / 10),
        shiny_fraction = dbl (2 / 10), neutral_fraction = dbl (2 / 10)\<rparr>
   \<and> no_flags =
       \<lparr>food_residue = False, black_plastic = False, soft_plastic = False,
        paper_lining = False, clean_material = False\<rparr>
   \<and> fires 5 no_flags
   \<and> verdict_of (classify_item no_flags) = icon_warning @ '' Rinse & Recycle''
   \<and> category_of (classify_item no_flags) = ''rinse''
   \<and> analyze_waste_item False img r =
       Inr \<lparr>verdict = icon_warning @ '' Rinse & Recycle'',
            action = action_of (classify_item no_flags),
            explanation = explanation_of (classify_item no_flags),
            impact = snd (IMPACT_STATEMENTS ! 1) ! (r mod 3),
            features = no_flags, metrics = fallback_metrics, confidence = dbl (65 / 100)\<rparr>"
proof -
  have m: "brightness fallback_metrics = dbl (55 / 100)"
    by (simp add: fallback_metrics_def)
  have "analyze_waste_item False img r =
       Inr \<lparr>verdict = icon_warning @ '' Rinse & Recycle'',
            action = action_of (classify_item no_flags),
            explanation = explanation_of (classify_item no_flags),
            impact = snd (IMPACT_STATEMENTS ! 1) ! (r mod 3),
            features = no_flags, metrics = fallback_metrics, confidence = dbl (65 / 100)\<rparr>"
    unfolding analyze_waste_item_Inr [OF fallback_inspect] fallback_classify m fallback_confidence
      impact_lookup
    by simp
  then show ?thesis
    by (intro conjI fallback_inspect fallback_metrics_def no_flags_def fallback_classify)
qed

text \<open>
  Claim C7, as amended. For the all-black 224 by 224 image the pipeline produces
  brightness 0, \<open>dark_fraction\<close> 1, \<open>warm_fraction\<close> 0, \<open>shiny_fraction\<close> 0 and
  \<open>neutral_fraction\<close> 1: a black pixel has no channel spread. The threshold of
  \<open>clean_material\<close> is passed and the override clears the flag, so the FlagSet is
  \<open>black_plastic\<close> alone; the verdict is \<open>Not Recyclable\<close> after the no-littering
  sign, the category \<open>reject\<close>, and the confidence \<open>0.70\<close>.
\<close>

theorem all_black_scenario:
  "inspect_image True all_black =
     Inr (\<lparr>brightness = 0, dark_fraction = 1, warm_fraction = 0, shiny_fraction = 0,
           neutral_fraction = 1\<rparr>, only_black_plastic)
   \<and> clean_material
       (derive_flags
          \<lparr>brightness = 0, dark_fraction = 1, warm_fraction = 0, shiny_fraction = 0,
           neutral_fraction = 1\<rparr>)
   \<and> only_black_plastic =
       \<lparr>food_residue = False, black_plastic = True, soft_plastic = False,
        paper_lining = False, clean_material = False\<rparr>
   \<and> fires 0 only_black_plastic
   \<and> verdict_of (classify_item only_black_plastic) = icon_do_not_litter @ '' Not Recyclable''
   \<and> category_of (classify_item only_black_plastic) = ''reject''
   \<and> estimate_confidence only_black_plastic 0 = dbl (7 / 10)
   \<and> dbl (7 / 10) = fadd (dbl (6 / 10)) (dbl (1 / 10))
   \<and> analyze_waste_item True all_black r =
       Inr \<lparr>verdict = icon_do_not_litter @ '' Not Recyclable'',
            action = action_of (classify_item only_black_plastic),
            explanation = explanation_of (classify_item only_black_plastic),
            impact = snd (IMPACT_STATEMENTS ! 2) ! (r mod 3),
            features = only_black_plastic,
            metrics =
              \<lparr>brightness = 0, dark_fraction = 1, warm_fraction = 0, shiny_fraction = 0,
               neutral_fraction = 1\<rparr>,
            confidence = dbl (7 / 10)\<rparr>"
proof -
  have a: "clean_material
       (derive_flags
          \<lparr>brightness = 0, dark_fraction = 1, warm_fraction = 0, shiny_fraction = 0,
           neutral_fraction = 1\<rparr>)"
    unfolding black_flags by simp
  have s: "dbl (7 / 10) = fadd (dbl (6 / 10)) (dbl (1 / 10))"
    by (simp add: float_eval)
  have m: "brightness
       \<lparr>brightness = 0, dark_fraction = 1, warm_fraction = 0, shiny_fraction = 0,
        neutral_fraction = 1\<rparr> = 0"
    by simp
  have "analyze_waste_item True all_black r =
       Inr \<lparr>verdict = icon_do_not_litter @ '' Not Recyclable'',
            action = action_of (classify_item only_black_plastic),
            explanation = explanation_of (classify_item only_black_plastic),
            impact = snd (IMPACT_STATEMENTS ! 2) ! (r mod 3),
            features = only_black_plastic,
            metrics =
              \<lparr>brightness = 0, dark_fraction = 1, warm_fraction = 0, shiny_fraction = 0,
               neutral_fraction = 1\<rparr>,
            confidence = dbl (7 / 10)\<rparr>"
    unfolding analyze_waste_item_Inr [OF all_black_inspect] black_classify m black_confidence
      impact_lookup
    by simp
  then show ?thesis
    by (intro conjI all_black_inspect a only_black_plastic_def black_classify black_confidence s)
qed

text \<open>
  The claim as stated has every fraction but \<open>dark_fraction\<close> near 0; the
  \<open>neutral_fraction\<close> of the all-black image is 1.
\<close>

theorem all_black_neutral_fraction_counterexample:
  "neutral_fraction (fst (projr (inspect_image True all_black))) = 1
   \<and> \<not> neutral_fraction (fst (projr (inspect_image True all_black))) < 1 / 2"
  unfolding all_black_inspect by simp

section \<open>Buffer shape\<close>

lemma extract_metrics_result:
  "(\<exists>m. extract_metrics px = Inr m) \<longleftrightarrow> list_all (\<lambda>p. 3 \<le> length p) px"
  "extract_metrics px = Inl IndexError \<longleftrightarrow> \<not> list_all (\<lambda>p. 3 \<le> length p) px"
  by (simp_all add: extract_metrics_def Let_def list_all_iff)

text \<open>
  Claim C9, as amended. \<open>inspect_image\<close> does not validate the shape of the buffer.
  With the array library, a multi-band buffer of any number of pixels is turned into a
  MetricSet and a FlagSet exactly when every pixel has at least three channels, and the
  analysis then returns a result; a fourth channel enters the statistics. With fewer
  than three channels the slicing raises \<open>IndexError\<close>, and on a single-band buffer the
  mean over the channel axis raises \<open>AxisError\<close>: failures of the array operations,
  not of a shape check. Without the array library the buffer is not read at all.
\<close>

theorem inspect_image_no_shape_check:
  "((\<exists>m flags. inspect_image True (Bands px) = Inr (m, flags)) \<longleftrightarrow>
      list_all (\<lambda>p. 3 \<le> length p) px)
   \<and> ((\<exists>res. analyze_waste_item True (Bands px) r = Inr res) \<longleftrightarrow>
      list_all (\<lambda>p. 3 \<le> length p) px)
   \<and> (inspect_image True (Bands px) = Inl IndexError \<longleftrightarrow>
      \<not> list_all (\<lambda>p. 3 \<le> length p) px)
   \<and> inspect_image True (Plane v) = Inl AxisError
   \<and> analyze_waste_item True (Plane v) r = Inl AxisError
   \<and> inspect_image False img = Inr (fallback_metrics, no_flags)"
proof -
  have 1: "(\<exists>m flags. inspect_image True (Bands px) = Inr (m, flags)) \<longleftrightarrow>
      list_all (\<lambda>p. 3 \<le> length p) px"
    unfolding inspect_image_Bands extract_metrics_result(1) [symmetric]
    by (auto split: sum.splits)
  have 3: "inspect_image True (Bands px) = Inl IndexError \<longleftrightarrow>
      \<not> list_all (\<lambda>p. 3 \<le> length p) px"
    unfolding inspect_image_Bands extract_metrics_result(2) [symmetric]
    by (auto split: sum.splits)
  have 4: "inspect_image True (Plane v) = Inl AxisError"
    by (simp add: inspect_image_def)
  have 2: "(\<exists>res. analyze_waste_item True (Bands px) r = Inr res) \<longleftrightarrow>
      list_all (\<lambda>p. 3 \<le> length p) px"
  proof (cases "inspect_image True (Bands px)")
    case (Inl e)
    then show ?thesis using 1 analyze_waste_item_Inl [OF Inl, of r] by simp
  next
    case (Inr mf)
    obtain m flags where mf: "mf = (m, flags)" by (cases mf)
    show ?thesis using 1 analyze_waste_item_Inr [OF Inr [unfolded mf], of r] Inr mf by simp
  qed
  show ?thesis
    by (intro conjI 1 2 3 4 analyze_waste_item_Inl [OF 4] fallback_inspect)
qed

text \<open>
  The claim as stated fails on a 224 by 224 buffer with four channels (a transparent
  black RGBA image): no error is raised and the item is classified.
\<close>

theorem rgba_buffer_classified_counterexample:
  "inspect_image True all_clear_rgba =
     Inr (\<lparr>brightness = 0, dark_fraction = 1, warm_fraction = 0, shiny_fraction = 0,
           neutral_fraction = 1\<rparr>, only_black_plastic)
   \<and> analyze_waste_item True all_clear_rgba 0 =
       Inr \<lparr>verdict = icon_do_not_litter @ '' Not Recyclable'',
            action = action_of (classify_item only_black_plastic),
            explanation = explanation_of (classify_item only_black_plastic),
            impact = snd (IMPACT_STATEMENTS ! 2) ! 0,
            features = only_black_plastic,
            metrics =
              \<lparr>brightness = 0, dark_fraction = 1, warm_fraction = 0, shiny_fraction = 0,
               neutral_fraction = 1\<rparr>,
            confidence = dbl (7 / 10)\<rparr>"
proof -
  have m: "brightness
       \<lparr>brightness = 0, dark_fraction = 1, warm_fraction = 0, shiny_fraction = 0,
        neutral_fraction = 1\<rparr> = 0"
    by simp
  have "analyze_waste_item True all_clear_rgba 0 =
       Inr \<lparr>verdict = icon_do_not_litter @ '' Not Recyclable'',
            action = action_of (classify_item only_black_plastic),
            explanation = explanation_of (classify_item only_black_plastic),
            impact = snd (IMPACT_STATEMENTS ! 2) ! 0,
            features = only_black_plastic,
            metrics =
              \<lparr>brightness = 0, dark_fraction = 1, warm_fraction = 0, shiny_fraction = 0,
               neutral_fraction = 1\<rparr>,
            confidence = dbl (7 / 10)\<rparr>"
    unfolding analyze_waste_item_Inr [OF all_clear_rgba_inspect] black_classify m
      black_confidence impact_lookup
    by simp
  then show ?thesis
    by (intro conjI all_clear_rgba_inspect)
qed

section \<open>Impact messages\<close>

lemma analyze_waste_item_cases:
  assumes "analyze_waste_item np img r = Inr res"
  obtains m flags where "inspect_image np img = Inr (m, flags)"
proof (cases "inspect_image np img")
  case (Inl e)
  then show ?thesis using assms analyze_waste_item_Inl [OF Inl, of r] by simp
next
  case (Inr mf)
  then show ?thesis using that by (cases mf) simp
qed

text \<open>
  Claim C8. For every category of \<open>recycle\<close>, \<open>rinse\<close>, \<open>reject\<close> and every draw of
  the random source, the message chosen is an entry of that category's list of three;
  the impact message of a result of \<open>analyze_waste_item\<close> belongs to the list of the
  category that \<open>classify_item\<close> gives for the result's flags and to no other
  category's list; and the draw changes nothing else: with any other draw the call
  returns a result with the same verdict, action, explanation, flags (hence category),
  metrics and confidence.
\<close>

theorem impact_message_of_category:
  assumes "analyze_waste_item np img r = Inr res"
  shows "category_of (classify_item (features res)) \<in> {''recycle'', ''rinse'', ''reject''}
    \<and> (\<exists>msgs. map_of IMPACT_STATEMENTS (category_of (classify_item (features res))) = Some msgs
          \<and> length msgs = 3 \<and> impact res \<in> set msgs)
    \<and> (\<forall>c msgs. map_of IMPACT_STATEMENTS c = Some msgs
          \<and> c \<noteq> category_of (classify_item (features res)) \<longrightarrow> impact res \<notin> set msgs)
    \<and> (\<forall>r'. \<exists>res'. analyze_waste_item np img r' = Inr res'
          \<and> verdict res' = verdict res \<and> action res' = action res
          \<and> explanation res' = explanation res \<and> features res' = features res
          \<and> metrics res' = metrics res \<and> confidence res' = confidence res)
    \<and> (\<forall>c \<in> {''recycle'', ''rinse'', ''reject''}. \<forall>k. \<exists>msgs msg.
          map_of IMPACT_STATEMENTS c = Some msgs \<and> length msgs = 3
          \<and> random_choice k msgs = Inr msg \<and> msg \<in> set msgs)"
proof -
  obtain m flags where i: "inspect_image np img = Inr (m, flags)"
    using assms by (rule analyze_waste_item_cases)
  note eq = analyze_waste_item_Inr [OF i]
  have res: "res =
     \<lparr>verdict = verdict_of (classify_item flags), action = action_of (classify_item flags),
      explanation = explanation_of (classify_item flags),
      impact = the (map_of IMPACT_STATEMENTS (category_of (classify_item flags))) ! (r mod 3),
      features = flags, metrics = m,
      confidence = estimate_confidence flags (brightness m)\<rparr>"
    using assms eq [of r] by simp
  have f: "features res = flags" by (simp add: res)
  obtain msgs where l: "map_of IMPACT_STATEMENTS (category_of (classify_item flags)) = Some msgs"
    using category_lookup [of flags] by blast
  have len: "length msgs = 3" by (rule impact_lookup_length [OF l])
  have imp: "impact res = msgs ! (r mod 3)" by (simp add: res l)
  have mem: "impact res \<in> set msgs"
    unfolding imp using random_choice_three [OF len, of r] by simp
  have 1: "category_of (classify_item (features res)) \<in> {''recycle'', ''rinse'', ''reject''}"
    unfolding f by (rule classify_category)
  have 2: "\<exists>msgs. map_of IMPACT_STATEMENTS (category_of (classify_item (features res))) = Some msgs
          \<and> length msgs = 3 \<and> impact res \<in> set msgs"
    unfolding f using l len mem by blast
  have 3: "\<forall>c msgs. map_of IMPACT_STATEMENTS c = Some msgs
          \<and> c \<noteq> category_of (classify_item (features res)) \<longrightarrow> impact res \<notin> set msgs"
  proof (intro allI impI)
    fix c msgs'
    assume h: "map_of IMPACT_STATEMENTS c = Some msgs'
      \<and> c \<noteq> category_of (classify_item (features res))"
    then have "set msgs \<inter> set msgs' = {}"
      using impact_lists_disjoint [OF l, of c msgs'] f by simp
    then show "impact res \<notin> set msgs'" using mem by blast
  qed
  have 4: "\<forall>r'. \<exists>res'. analyze_waste_item np img r' = Inr res'
          \<and> verdict res' = verdict res \<and> action res' = action res
          \<and> explanation res' = explanation res \<and> features res' = features res
          \<and> metrics res' = metrics res \<and> confidence res' = confidence res"
    unfolding eq by (simp add: res)
  have 5: "\<forall>c \<in> {''recycle'', ''rinse'', ''reject''}. \<forall>k. \<exists>msgs msg.
          map_of IMPACT_STATEMENTS c = Some msgs \<and> length msgs = 3
          \<and> random_choice k msgs = Inr msg \<and> msg \<in> set msgs"
  proof (intro ballI allI)
    fix c :: string and k :: nat
    assume "c \<in> {''recycle'', ''rinse'', ''reject''}"
    then obtain ms where ms: "map_of IMPACT_STATEMENTS c = Some ms"
      using impact_lookup by auto
    show "\<exists>msgs msg. map_of IMPACT_STATEMENTS c = Some msgs \<and> length msgs = 3
          \<and> random_choice k msgs = Inr msg \<and> msg \<in> set msgs"
      using ms impact_lookup_length [OF ms]
        random_choice_three [OF impact_lookup_length [OF ms], of k] by blast
  qed
  show ?thesis by (intro conjI 1 2 3 4 5)
qed

text \<open>
  Without the array library and with the draw 1 the message is the second entry of the
  \<open>rinse\<close> list; it is in neither other list.
\<close>

theorem impact_message_of_category_witness:
  "analyze_waste_item False (Plane []) 1 =
     Inr \<lparr>verdict = icon_warning @ '' Rinse & Recycle'',
          action = action_of (classify_item no_flags),
          explanation = explanation_of (classify_item no_flags),
          impact = ''Rinsing keeps this out of landfill and saves energy in sorting centers.'',
          features = no_flags, metrics = fallback_metrics, confidence = dbl (65 / 100)\<rparr>
   \<and> ''Rinsing keeps this out of landfill and saves energy in sorting centers.''
       \<in> set (snd (IMPACT_STATEMENTS ! 1))
   \<and> ''Rinsing keeps this out of landfill and saves energy in sorting centers.''
       \<notin> set (snd (IMPACT_STATEMENTS ! 0))
   \<and> ''Rinsing keeps this out of landfill and saves energy in sorting centers.''
       \<notin> set (snd (IMPACT_STATEMENTS ! 2))"
proof -
  have m: "brightness fallback_metrics = dbl (55 / 100)"
    by (simp add: fallback_metrics_def)
  have s: "snd (IMPACT_STATEMENTS ! 1) ! (1 mod 3) =
      ''Rinsing keeps this out of landfill and saves energy in sorting centers.''"
    by (simp add: IMPACT_STATEMENTS_def)
  have a: "analyze_waste_item False (Plane []) 1 =
     Inr \<lparr>verdict = icon_warning @ '' Rinse & Recycle'',
          action = action_of (classify_item no_flags),
          explanation = explanation_of (classify_item no_flags),
          impact = ''Rinsing keeps this out of landfill and saves energy in sorting centers.'',
          features = no_flags, metrics = fallback_metrics, confidence = dbl (65 / 100)\<rparr>"
    unfolding analyze_waste_item_Inr [OF fallback_inspect] fallback_classify m fallback_confidence
      impact_lookup
    using s by simp
  note w = impact_message_of_category [OF a]
  have c: "category_of (classify_item no_flags) = ''rinse''"
    by (rule fallback_classify)
  have w2: "\<exists>msgs. map_of IMPACT_STATEMENTS ''rinse'' = Some msgs \<and> length msgs = 3
       \<and> ''Rinsing keeps this out of landfill and saves energy in sorting centers.'' \<in> set msgs"
    using conjunct1 [OF conjunct2 [OF w]] by (simp add: c)
  have w3: "\<forall>c msgs. map_of IMPACT_STATEMENTS c = Some msgs \<and> c \<noteq> ''rinse'' \<longrightarrow>
       ''Rinsing keeps this out of landfill and saves energy in sorting centers.'' \<notin> set msgs"
    using conjunct1 [OF conjunct2 [OF conjunct2 [OF w]]] by (simp add: c)
  have in1: "''Rinsing keeps this out of landfill and saves energy in sorting centers.''
       \<in> set (snd (IMPACT_STATEMENTS ! 1))"
    using w2 unfolding impact_lookup(2) by simp
  have out0: "''Rinsing keeps this out of landfill and saves energy in sorting centers.''
       \<notin> set (snd (IMPACT_STATEMENTS ! 0))"
    using w3 [rule_format, of "''recycle''" "snd (IMPACT_STATEMENTS ! 0)"] impact_lookup(1)
    by simp
  have out2: "''Rinsing keeps this out of landfill and saves energy in sorting centers.''
       \<notin> set (snd (IMPACT_STATEMENTS ! 2))"
    using w3 [rule_format, of "''reject''" "snd (IMPACT_STATEMENTS ! 2)"] impact_lookup(3)
    by simp
  show ?thesis by (intro conjI a in1 out0 out2)
qed

end
